theory Spec2Isabelle
  imports Main "HOL-Library.Word"
begin

unbundle bit_operations_syntax

section \<open>The submission view of molcalc (src/molcalc/views.py)\<close>

text \<open>
  The theory embeds \<^verbatim>\<open>ajax_submitquantum\<close> and \<^verbatim>\<open>ajax_sdf_to_smiles\<close>.
  Python strings are modelled by their UTF-8 bytes (\<open>string\<close> is a list of 8-bit
  characters). The view only looks for the ASCII characters newline, \<^verbatim>\<open>]\<close>,
  \<^verbatim>\<open>#\<close>, space and the digits, and no byte of a multi-byte UTF-8 sequence is ASCII,
  so searching the bytes finds what searching the code points finds.
\<close>

subsection \<open>Python string operations used by the views\<close>

abbreviation nl :: char where
  "nl \<equiv> CHR 0x0A"

text \<open>\<^verbatim>\<open>status.split("]")[-1]\<close>: what follows the last \<^verbatim>\<open>]\<close>, the whole string if there is none.\<close>

definition split_last :: "char \<Rightarrow> string \<Rightarrow> string" where
  "split_last sep s = rev (takeWhile (\<lambda>c. c \<noteq> sep) (rev s))"

definition is_digit :: "char \<Rightarrow> bool" where
  "is_digit c = (c \<in> set ''0123456789'')"

text \<open>
  A match of the pattern \<^verbatim>\<open>\# [0-9]+\<close> at the start of a string: a hash sign, one space
  and the longest run of digits, which must not be empty. The result is what follows the match.
\<close>

definition match_index :: "string \<Rightarrow> string option" where
  "match_index s =
     (case s of
        c # d # e # es \<Rightarrow>
          if c = CHR ''#'' \<and> d = CHR '' '' \<and> is_digit e
          then Some (dropWhile is_digit es) else None
      | _ \<Rightarrow> None)"

text \<open>
  \<^verbatim>\<open>re.sub(r"\# [0-9]+", "", status)\<close>: one pass from the left; a match is deleted and
  the scan goes on behind it, any other character is kept.
\<close>

function re_sub_index :: "string \<Rightarrow> string" where
  "re_sub_index [] = []"
| "re_sub_index (c # cs) =
     (case match_index (c # cs) of
        Some rest \<Rightarrow> re_sub_index rest
      | None \<Rightarrow> c # re_sub_index cs)"
  by pat_completeness auto
termination
proof (relation "measure length")
  show "wf (measure length)" by simp
next
  fix c :: char and cs rest :: string
  assume "match_index (c # cs) = Some rest"
  then obtain d e es where "cs = d # e # es" and "rest = dropWhile is_digit es"
    by (auto simp: match_index_def split: list.splits if_splits)
  then have "length rest \<le> length es"
    by (simp add: length_dropWhile_le)
  with \<open>cs = d # e # es\<close> show "(rest, c # cs) \<in> measure length"
    by simp
next
  fix c :: char and cs :: string
  show "(cs, c # cs) \<in> measure length" by simp
qed

text \<open>Lines 91-92 and 137-138: the two statements that clean a toolkit diagnostic.\<close>

definition sanitize_status :: "string \<Rightarrow> string" where
  "sanitize_status status = re_sub_index (split_last CHR '']'' status)"

text \<open>\<^verbatim>\<open>s.index(c)\<close>: the position of the first occurrence; \<open>None\<close> is Python's ValueError.\<close>

definition str_index :: "string \<Rightarrow> char \<Rightarrow> nat option" where
  "str_index s c =
     (if c \<in> set s then Some (length (takeWhile (\<lambda>x. x \<noteq> c) s)) else None)"

text \<open>
  The exceptions that can leave a view: the KeyError of indexing the form, the ValueError
  of \<^verbatim>\<open>index\<close> or of the toolkit, and any other exception of the toolkit.
\<close>

datatype exn = KeyError string | ValueError string | OtherError string

text \<open>
  Lines 159-160, \<^verbatim>\<open>for _ in range(3): sdfstr = sdfstr[sdfstr.index("\n") + 1:]\<close>, with
  the number of rounds as the recursion argument.
\<close>

fun strip_lines :: "nat \<Rightarrow> string \<Rightarrow> exn + string" where
  "strip_lines 0 s = Inr s"
| "strip_lines (Suc n) s =
     (case str_index s nl of
        None \<Rightarrow> Inl (ValueError ''substring not found'')
      | Some i \<Rightarrow> strip_lines n (drop (i + 1) s))"

text \<open>\<^verbatim>\<open>s.split("\n")\<close>, used to state what happens to the lines of a text.\<close>

fun split_lines :: "string \<Rightarrow> string list" where
  "split_lines [] = [[]]"
| "split_lines (c # cs) =
     (if c = nl then [] # split_lines cs
      else (case split_lines cs of
              [] \<Rightarrow> [[c]]
            | line # lines \<Rightarrow> (c # line) # lines))"

subsection \<open>\<^verbatim>\<open>hashlib.md5(...).hexdigest()\<close>\<close>

text \<open>
  The digest of RFC 1321 on 32-bit words: padding to a multiple of 64 bytes with the bit
  length in 64 bits, four state words, 64 steps for each block of 16 little-endian words.
\<close>

type_synonym u32 = "32 word"

definition md5_K :: "u32 list" where
  "md5_K =
    [0xd76aa478, 0xe8c7b756, 0x242070db, 0xc1bdceee, 0xf57c0faf, 0x4787c62a, 0xa8304613, 0xfd469501,
     0x698098d8, 0x8b44f7af, 0xffff5bb1, 0x895cd7be, 0x6b901122, 0xfd987193, 0xa679438e, 0x49b40821,
     0xf61e2562, 0xc040b340, 0x265e5a51, 0xe9b6c7aa, 0xd62f105d, 0x02441453, 0xd8a1e681, 0xe7d3fbc8,
     0x21e1cde6, 0xc33707d6, 0xf4d50d87, 0x455a14ed, 0xa9e3e905, 0xfcefa3f8, 0x676f02d9, 0x8d2a4c8a,
     0xfffa3942, 0x8771f681, 0x6d9d6122, 0xfde5380c, 0xa4beea44, 0x4bdecfa9, 0xf6bb4b60, 0xbebfbc70,
     0x289b7ec6, 0xeaa127fa, 0xd4ef3085, 0x04881d05, 0xd9d4d039, 0xe6db99e5, 0x1fa27cf8, 0xc4ac5665,
     0xf4292244, 0x432aff97, 0xab9423a7, 0xfc93a039, 0x655b59c3, 0x8f0ccc92, 0xffeff47d, 0x85845dd1,
     0x6fa87e4f, 0xfe2ce6e0, 0xa3014314, 0x4e0811a1, 0xf7537e82, 0xbd3af235, 0x2ad7d2bb, 0xeb86d391]"

definition md5_S :: "nat list" where
  "md5_S =
     concat (replicate 4 [7, 12, 17, 22]) @ concat (replicate 4 [5, 9, 14, 20])
     @ concat (replicate 4 [4, 11, 16, 23]) @ concat (replicate 4 [6, 10, 15, 21])"

definition rotl32 :: "u32 \<Rightarrow> nat \<Rightarrow> u32" where
  "rotl32 x n = push_bit n x OR drop_bit (32 - n) x"

fun md5_step :: "u32 list \<Rightarrow> u32 \<times> u32 \<times> u32 \<times> u32 \<Rightarrow> nat \<Rightarrow> u32 \<times> u32 \<times> u32 \<times> u32" where
  "md5_step M (a, b, c, d) i =
     (let (f, g) =
        (if i < 16 then ((b AND c) OR (NOT b AND d), i)
         else if i < 32 then ((d AND b) OR (NOT d AND c), (5 * i + 1) mod 16)
         else if i < 48 then (b XOR c XOR d, (3 * i + 5) mod 16)
         else (c XOR (b OR NOT d), (7 * i) mod 16))
      in (d, b + rotl32 (f + a + md5_K ! i + M ! g) (md5_S ! i), b, c))"

definition md5_block :: "u32 \<times> u32 \<times> u32 \<times> u32 \<Rightarrow> u32 list \<Rightarrow> u32 \<times> u32 \<times> u32 \<times> u32" where
  "md5_block h M =
     (case h of (a0, b0, c0, d0) \<Rightarrow>
        (case foldl (md5_step M) h [0..<64] of
           (a, b, c, d) \<Rightarrow> (a0 + a, b0 + b, c0 + c, d0 + d)))"

definition md5_pad :: "8 word list \<Rightarrow> 8 word list" where
  "md5_pad msg =
     msg @ [0x80] @ replicate ((119 - length msg mod 64) mod 64) 0
     @ map (\<lambda>k. ucast (drop_bit (8 * k) (of_nat (8 * length msg) :: 64 word))) [0..<8]"

fun le_words :: "8 word list \<Rightarrow> u32 list" where
  "le_words (b0 # b1 # b2 # b3 # bs) =
     (ucast b0 OR push_bit 8 (ucast b1) OR push_bit 16 (ucast b2) OR push_bit 24 (ucast b3))
     # le_words bs"
| "le_words _ = []"

fun chunks :: "nat \<Rightarrow> 'a list \<Rightarrow> 'a list list" where
  "chunks n [] = []"
| "chunks 0 xs = []"
| "chunks n xs = take n xs # chunks n (drop n xs)"

definition md5_digest :: "8 word list \<Rightarrow> 8 word list" where
  "md5_digest msg =
     (case foldl md5_block (0x67452301, 0xefcdab89, 0x98badcfe, 0x10325476)
             (chunks 16 (le_words (md5_pad msg))) of
        (a, b, c, d) \<Rightarrow>
          concat (map (\<lambda>w. map (\<lambda>k. ucast (drop_bit (8 * k) w)) [0..<4]) [a, b, c, d]))"

definition hexdigit :: "nat \<Rightarrow> char" where
  "hexdigit n = ''0123456789abcdef'' ! n"

definition hexlify :: "8 word list \<Rightarrow> string" where
  "hexlify bs = concat (map (\<lambda>b. [hexdigit (unat b div 16), hexdigit (unat b mod 16)]) bs)"

definition md5_hexdigest :: "string \<Rightarrow> string" where
  "md5_hexdigest s = hexlify (md5_digest (map of_char s))"

subsection \<open>Requests, the toolkit, the store\<close>

text \<open>
  A JSON reply is a dictionary from strings to strings, kept as the list of its items in
  the order the source writes them. A view either returns such a reply or lets an
  exception escape to the web framework.
\<close>

type_synonym payload = "(string \<times> string) list"

datatype outcome = Returns payload | Raises exn

text \<open>
  \<^verbatim>\<open>request.remote_addr\<close> and \<^verbatim>\<open>request.POST\<close>. The form data is a multi-dictionary: the
  list of the submitted (key, value) items. It is false in a condition when it has no item,
  indexing gives the last value of a key and raises KeyError for a key that is absent, and
  \<^verbatim>\<open>get\<close> gives the default instead.
\<close>

record request =
  remote_addr :: string
  POST :: "(string \<times> string) list"

definition getitem :: "(string \<times> string) list \<Rightarrow> string \<Rightarrow> string option" where
  "getitem items k = map_of (rev items) k"

definition get_default :: "(string \<times> string) list \<Rightarrow> string \<Rightarrow> string \<Rightarrow> string" where
  "get_default items k dflt = (case getitem items k of None \<Rightarrow> dflt | Some v \<Rightarrow> v)"

text \<open>
  A row of \<^verbatim>\<open>models.GamessCalculation\<close>: the view reads \<^verbatim>\<open>hashkey\<close> and writes
  \<^verbatim>\<open>created\<close>; the other columns are carried along as \<open>columns\<close>.
\<close>

record calculation =
  hashkey :: string
  created :: nat
  columns :: payload

text \<open>The dictionary \<^verbatim>\<open>molecule_info\<close> of line 174.\<close>

record 'mol molecule_info =
  info_sdfstr :: string
  info_molobj :: 'mol
  info_hashkey :: string

text \<open>
  What lies outside the file is a parameter: the block list found in the settings under
  \<^verbatim>\<open>constants.COLUMN_BLOCK_IP\<close> (\<open>None\<close> when the settings have no such key), the
  functions of \<^verbatim>\<open>chembridge\<close> and RDKit over a type \<open>'mol\<close> of molecule objects, and
  \<^verbatim>\<open>pipelines.calculation_pipeline\<close> with the settings already applied. A function that
  changes the molecule in place returns the changed molecule. \<open>GetConformer\<close> is
  false where the call raises ValueError; the pipeline gives \<open>Inl\<close> of the exception
  where it raises. The block list is a collection of addresses, \<^verbatim>\<open>in\<close> being membership.

  \<^verbatim>\<open>Chem.AddHs\<close>, \<^verbatim>\<open>AllChem.EmbedMultipleConfs\<close> and \<^verbatim>\<open>chembridge.molobj_optimize\<close>
  are numerical and may raise (embedding raises ValueError on a molecule without atoms):
  they give \<open>Inl\<close> of the exception then, and the source calls them outside any
  \<^verbatim>\<open>try\<close>. The parser reports its failures through its status, and reading the atoms
  and writing a molecule out are taken to return.
\<close>

record 'mol env =
  block_ip :: "string list option"
  sdf_to_smiles :: "string \<Rightarrow> string option \<times> string"
  sdfstr_to_molobj :: "string \<Rightarrow> 'mol option \<times> string"
  GetConformer :: "'mol \<Rightarrow> bool"
  molobj_to_atoms :: "'mol \<Rightarrow> int list"
  AddHs :: "'mol \<Rightarrow> exn + 'mol"
  EmbedMultipleConfs :: "'mol \<Rightarrow> nat \<Rightarrow> exn + 'mol"
  molobj_optimize :: "'mol \<Rightarrow> exn + 'mol"
  molobj_to_sdfstr :: "'mol \<Rightarrow> string"
  calculation_pipeline :: "'mol molecule_info \<Rightarrow> string + payload \<times> calculation option"

text \<open>
  Every call that leaves the view and every log line is recorded, in order. \<open>Log_error\<close>
  carries the exception when the source passes \<^verbatim>\<open>exc_info=True\<close>.
\<close>

datatype 'mol effect =
    Call_sdfstr_to_molobj string
  | Call_GetConformer 'mol
  | Call_molobj_to_atoms 'mol
  | Call_AddHs 'mol
  | Call_EmbedMultipleConfs 'mol nat
  | Call_molobj_optimize 'mol
  | Call_molobj_to_sdfstr 'mol
  | Call_query string
  | Call_calculation_pipeline "'mol molecule_info"
  | Log_info string
  | Log_error string "string option"

text \<open>The rows behind \<^verbatim>\<open>request.dbsession\<close>, oldest first, and the record of effects.\<close>

record 'mol world =
  dbsession :: "calculation list"
  trace :: "'mol effect list"

definition emit :: "'mol effect \<Rightarrow> 'mol world \<Rightarrow> 'mol world" where
  "emit e w = w\<lparr>trace := trace w @ [e]\<rparr>"

text \<open>\<^verbatim>\<open>query(...).filter_by(hashkey=hashkey).first()\<close> and the assignment to its \<^verbatim>\<open>created\<close>.\<close>

definition first_by_hashkey :: "string \<Rightarrow> calculation list \<Rightarrow> calculation option" where
  "first_by_hashkey key rows = find (\<lambda>c. hashkey c = key) rows"

fun set_created :: "string \<Rightarrow> nat \<Rightarrow> calculation list \<Rightarrow> calculation list" where
  "set_created key t [] = []"
| "set_created key t (c # cs) =
     (if hashkey c = key then c\<lparr>created := t\<rparr> # cs else c # set_created key t cs)"

subsection \<open>\<^verbatim>\<open>ajax_sdf_to_smiles\<close>, lines 77-95\<close>

definition ajax_sdf_to_smiles :: "'mol env \<Rightarrow> request \<Rightarrow> outcome" where
  "ajax_sdf_to_smiles env request =
     (if POST request = [] then
        Returns [(''error'', ''Error 55 - Missing key''), (''message'', ''Error. Missing information.'')]
      else
        (case getitem (POST request) ''sdf'' of
           None \<Rightarrow>
             Returns [(''error'', ''Error 60 - get error''), (''message'', ''Error. Missing information.'')]
         | Some sdf \<Rightarrow>
             (case sdf_to_smiles env sdf of
                (None, status) \<Rightarrow>
                  Returns [(''error'', ''Error 69 - rdkit error''), (''message'', sanitize_status status)]
              | (Some smiles, status) \<Rightarrow> Returns [(''smiles'', smiles)])))"

subsection \<open>\<^verbatim>\<open>ajax_submitquantum\<close>, lines 115-187\<close>

text \<open>
  The view is embedded as the chain of its stages. A stage gives \<open>Inl\<close> of the outcome
  when the view ends there and \<open>Inr\<close> of what the next stage needs otherwise.

  Lines 119-133: block list, empty form, the \<^verbatim>\<open>sdf\<close> field, the hydrogen flag.
\<close>

definition check_request :: "'mol env \<Rightarrow> request \<Rightarrow> outcome + string \<times> bool" where
  "check_request env request =
     (if (case block_ip env of None \<Rightarrow> False | Some blocked \<Rightarrow> remote_addr request \<in> set blocked) then
        Inl (Returns [(''error'', ''Error 194 - blocked ip''),
                      (''message'', ''IP address has been blocked for missue'')])
      else if POST request = [] then
        Inl (Returns [(''error'', ''Error 128 - empty post''), (''message'', ''Error. Empty post.'')])
      else
        (case getitem (POST request) ''sdf'' of
           None \<Rightarrow> Inl (Raises (KeyError ''sdf''))
         | Some sdf \<Rightarrow>
             if sdf = [] then
               Inl (Returns [(''error'', ''Error 132 - sdf key error''),
                             (''message'', ''Error. Missing information.'')])
             else
               Inr (sdf, get_default (POST request) ''add_hydrogens'' ''1'' = ''1'')))"

text \<open>Lines 135-144: parsing, and the test that the molecule has a conformer.\<close>

definition parse_structure ::
  "'mol env \<Rightarrow> string \<Rightarrow> 'mol world \<Rightarrow> (outcome + 'mol) \<times> 'mol world" where
  "parse_structure env sdfstr w =
     (let w = emit (Call_sdfstr_to_molobj sdfstr) w in
      case sdfstr_to_molobj env sdfstr of
        (None, status) \<Rightarrow>
          (Inl (Returns [(''error'', ''Error 141 - rdkit error''), (''message'', sanitize_status status)]), w)
      | (Some molobj, status) \<Rightarrow>
          (let w = emit (Call_GetConformer molobj) w in
           if GetConformer env molobj then (Inr molobj, w)
           else
             (Inl (Returns [(''error'', ''Error 141 - rdkit error''),
                            (''message'',
                             ''Error. Server was unable to generate conformations for this molecule'')]),
              w)))"

text \<open>
  Lines 146-150: hydrogens are added when the molecule has none and the flag is set. An
  exception of one of the three toolkit calls leaves the view there.
\<close>

definition add_hydrogens_step ::
  "'mol env \<Rightarrow> bool \<Rightarrow> 'mol \<Rightarrow> 'mol world \<Rightarrow> (outcome + 'mol) \<times> 'mol world" where
  "add_hydrogens_step env add_hydrogens molobj w =
     (let w = emit (Call_molobj_to_atoms molobj) w;
          atoms = molobj_to_atoms env molobj
      in if 1 \<notin> set atoms \<and> add_hydrogens then
           (let w = emit (Call_AddHs molobj) w in
            case AddHs env molobj of
              Inl e \<Rightarrow> (Inl (Raises e), w)
            | Inr molobj \<Rightarrow>
                (let w = emit (Call_EmbedMultipleConfs molobj 1) w in
                 case EmbedMultipleConfs env molobj 1 of
                   Inl e \<Rightarrow> (Inl (Raises e), w)
                 | Inr molobj \<Rightarrow>
                     (let w = emit (Call_molobj_optimize molobj) w in
                      case molobj_optimize env molobj of
                        Inl e \<Rightarrow> (Inl (Raises e), w)
                      | Inr molobj \<Rightarrow> (Inr molobj, w))))
         else (Inr molobj, w))"

text \<open>
  Lines 152-156. \<^verbatim>\<open>np.where(atoms != 1)[0]\<close> is the array of the positions whose atomic
  number is not 1.
\<close>

definition heavy_atoms :: "int list \<Rightarrow> nat list" where
  "heavy_atoms atoms = filter (\<lambda>i. atoms ! i \<noteq> 1) [0..<length atoms]"

definition max_atoms :: nat where
  "max_atoms = 10"

definition check_heavy_atoms :: "'mol env \<Rightarrow> 'mol \<Rightarrow> 'mol world \<Rightarrow> (outcome + unit) \<times> 'mol world" where
  "check_heavy_atoms env molobj w =
     (let w = emit (Call_molobj_to_atoms molobj) w;
          atoms = molobj_to_atoms env molobj
      in if length (heavy_atoms atoms) > max_atoms then
           (Inl (Returns [(''error'', ''Error 194 - max atoms error''),
                          (''message'', ''Stop Casper. Max ten heavy atoms.'')]), w)
         else (Inr (), w))"

text \<open>
  Lines 158-163: the text that is hashed and its key. The result is the new value of
  \<^verbatim>\<open>sdfstr\<close> and \<^verbatim>\<open>hashkey\<close>, or the ValueError of \<^verbatim>\<open>index\<close>.
\<close>

definition fingerprint :: "string \<Rightarrow> exn + string \<times> string" where
  "fingerprint sdfstr =
     (case strip_lines 3 sdfstr of
        Inl e \<Rightarrow> Inl e
      | Inr rest \<Rightarrow>
          (let sdfstr = replicate 3 nl @ rest
           in Inr (sdfstr, md5_hexdigest sdfstr)))"

text \<open>
  Lines 119-163 together: the outcome when the view ends before the store is queried,
  otherwise the molecule, the hashed text and the key.
\<close>

definition prepare ::
  "'mol env \<Rightarrow> request \<Rightarrow> 'mol world \<Rightarrow> (outcome + 'mol \<times> string \<times> string) \<times> 'mol world" where
  "prepare env request w =
     (case check_request env request of
        Inl out \<Rightarrow> (Inl out, w)
      | Inr (sdfstr, add_hydrogens) \<Rightarrow>
          (case parse_structure env sdfstr w of
             (Inl out, w) \<Rightarrow> (Inl out, w)
           | (Inr molobj, w) \<Rightarrow>
               (case add_hydrogens_step env add_hydrogens molobj w of
                  (Inl out, w) \<Rightarrow> (Inl out, w)
                | (Inr molobj, w) \<Rightarrow>
                    (case check_heavy_atoms env molobj w of
                       (Inl out, w) \<Rightarrow> (Inl out, w)
                     | (Inr _, w) \<Rightarrow>
                         (case fingerprint sdfstr of
                            Inl e \<Rightarrow> (Inl (Raises e), w)
                          | Inr (sdfstr, key) \<Rightarrow> (Inr (molobj, sdfstr, key), w))))))"

text \<open>
  Lines 165-187: the store is queried for the key (\<open>key\<close> is the source's
  \<^verbatim>\<open>hashkey\<close>); a row that is found gets the time \<open>now\<close> of \<^verbatim>\<open>datetime.datetime.now()\<close>,
  otherwise the pipeline runs.
\<close>

definition lookup_or_compute ::
  "'mol env \<Rightarrow> nat \<Rightarrow> 'mol \<Rightarrow> string \<Rightarrow> string \<Rightarrow> 'mol world \<Rightarrow> outcome \<times> 'mol world" where
  "lookup_or_compute env now molobj sdfstr key w =
     (let w = emit (Call_query key) w in
      case first_by_hashkey key (dbsession w) of
        Some calculation \<Rightarrow>
          (let msg = [(''hashkey'', key)];
               w = w\<lparr>dbsession := set_created key now (dbsession w)\<rparr>;
               w = emit (Log_info (key @ '' exists'')) w
           in (Returns msg, w))
      | None \<Rightarrow>
          (let w = emit (Log_info (key @ '' create'')) w;
               molecule_info = \<lparr>info_sdfstr = sdfstr, info_molobj = molobj, info_hashkey = key\<rparr>;
               w = emit (Call_calculation_pipeline molecule_info) w
           in case calculation_pipeline env molecule_info of
                Inl e \<Rightarrow>
                  (let w = emit (Call_molobj_to_sdfstr molobj) w;
                       sdfstr = molobj_to_sdfstr env molobj;
                       w = emit (Log_error (key @ '' PipelineError'') (Some e)) w;
                       w = emit (Log_error sdfstr None) w
                   in (Returns [(''error'', ''293''),
                                (''message'', ''Internal server server. Uncaught exception'')], w))
              | Inr (msg, new_calculation) \<Rightarrow>
                  (case new_calculation of
                     None \<Rightarrow> (Returns msg, w)
                   | Some c \<Rightarrow> (Returns msg, w\<lparr>dbsession := dbsession w @ [c]\<rparr>))))"

definition ajax_submitquantum :: "'mol env \<Rightarrow> nat \<Rightarrow> request \<Rightarrow> 'mol world \<Rightarrow> outcome \<times> 'mol world" where
  "ajax_submitquantum env now request w =
     (case prepare env request w of
        (Inl out, w) \<Rightarrow> (out, w)
      | (Inr (molobj, sdfstr, key), w) \<Rightarrow> lookup_or_compute env now molobj sdfstr key w)"

text \<open>
  Submissions handled one after the other, each with the time at which it is handled;
  the world of one is the world the next one starts in.
\<close>

fun submit_all :: "'mol env \<Rightarrow> (nat \<times> request) list \<Rightarrow> 'mol world \<Rightarrow> 'mol world" where
  "submit_all env [] w = w"
| "submit_all env ((now, request) # rest) w =
     submit_all env rest (snd (ajax_submitquantum env now request w))"

text \<open>The runs of the pipeline for a key that a record of effects holds.\<close>

definition pipeline_runs :: "string \<Rightarrow> 'mol effect list \<Rightarrow> 'mol effect list" where
  "pipeline_runs key es =
     filter (\<lambda>e. case e of Call_calculation_pipeline info \<Rightarrow> info_hashkey info = key | _ \<Rightarrow> False) es"

subsection \<open>A small toolkit for concrete runs\<close>

text \<open>
  The theorems below are run on a toolkit small enough to follow by hand. A molecule is
  the list of its atomic numbers. Three structures parse, under any header: one carbon
  atom, eleven carbon atoms, and no atom at all; any other text is refused with a
  diagnostic in the toolkit's style. Adding hydrogens appends four of them where there is
  an atom, and embedding raises on the molecule without atoms. The pipeline returns the
  key and a new row for it.
\<close>

definition methane_sdf :: string where
  "methane_sdf = ''methane'' @ [nl] @ ''RDKit 3D'' @ [nl] @ [nl] @ ''C'' @ [nl]"

definition undecane_sdf :: string where
  "undecane_sdf = ''undecane'' @ [nl] @ ''RDKit 3D'' @ [nl] @ [nl] @ concat (replicate 11 (''C'' @ [nl]))"

definition demo_status :: string where
  "demo_status = ''[12:00:00] Explicit valence for atom # 14 N, 4, is greater than permitted''"

text \<open>The parser does not read the three header lines.\<close>

definition demo_parse :: "string \<Rightarrow> int list option \<times> string" where
  "demo_parse s =
     (if strip_lines 3 s = Inr (''C'' @ [nl]) then (Some [6], [])
      else if strip_lines 3 s = Inr (concat (replicate 11 (''C'' @ [nl]))) then (Some (replicate 11 6), [])
      else if strip_lines 3 s = Inr [] then (Some [], [])
      else (None, demo_status))"

definition demo_env :: "int list env" where
  "demo_env =
     \<lparr>block_ip = Some [''203.0.113.7''],
      sdf_to_smiles =
        (\<lambda>s. if fst (demo_parse s) = Some [6] then (Some ''C'', []) else (None, demo_status)),
      sdfstr_to_molobj = demo_parse,
      GetConformer = (\<lambda>m. True),
      molobj_to_atoms = (\<lambda>m. m),
      AddHs = (\<lambda>m. Inr (if m = [] then [] else m @ [1, 1, 1, 1])),
      EmbedMultipleConfs =
        (\<lambda>m n. if m = [] then Inl (ValueError ''molecule has no atoms'') else Inr m),
      molobj_optimize = (\<lambda>m. Inr m),
      molobj_to_sdfstr =
        (\<lambda>m. [nl, nl, nl] @ concat (map (\<lambda>a. (if a = 1 then ''H'' else ''C'') @ [nl]) m)),
      calculation_pipeline =
        (\<lambda>info. Inr ([(''hashkey'', info_hashkey info)],
                      Some \<lparr>hashkey = info_hashkey info, created = 0, columns = []\<rparr>))\<rparr>"

text \<open>The same toolkit with a pipeline that raises.\<close>

definition failing_env :: "int list env" where
  "failing_env = demo_env\<lparr>calculation_pipeline := (\<lambda>info. Inl ''gamess failed'')\<rparr>"

definition methane_request :: request where
  "methane_request = \<lparr>remote_addr = ''198.51.100.1'', POST = [(''sdf'', methane_sdf)]\<rparr>"



text \<open>The same structure under another header.\<close>

definition methane_sdf_b :: string where
  "methane_sdf_b = ''CH4'' @ [nl] @ ''OpenBabel 2026'' @ [nl] @ ''resubmitted'' @ [nl] @ ''C'' @ [nl]"

definition methane_request_b :: request where
  "methane_request_b = \<lparr>remote_addr = ''198.51.100.2'', POST = [(''sdf'', methane_sdf_b)]\<rparr>"

definition empty_world :: "int list world" where
  "empty_world = \<lparr>dbsession = [], trace = []\<rparr>"

text \<open>
  The text that is hashed for \<open>methane_request\<close>, its key, and the effects of the
  stages that come before the store is queried.
\<close>

definition methane_canonical :: string where
  "methane_canonical = [nl, nl, nl] @ ''C'' @ [nl]"

definition methane_key :: string where
  "methane_key = md5_hexdigest methane_canonical"

definition methane_prepared :: "int list effect list" where
  "methane_prepared =
     [Call_sdfstr_to_molobj methane_sdf, Call_GetConformer [6], Call_molobj_to_atoms [6],
      Call_AddHs [6], Call_EmbedMultipleConfs [6, 1, 1, 1, 1] 1,
      Call_molobj_optimize [6, 1, 1, 1, 1], Call_molobj_to_atoms [6, 1, 1, 1, 1]]"

section \<open>Properties\<close>

subsection \<open>The small toolkit on its texts\<close>

lemma strip_methane_sdf: "strip_lines 3 methane_sdf = Inr (''C'' @ [nl])"
  by (simp add: methane_sdf_def str_index_def numeral_3_eq_3)

lemma strip_methane_sdf_b: "strip_lines 3 methane_sdf_b = Inr (''C'' @ [nl])"
  by (simp add: methane_sdf_b_def str_index_def numeral_3_eq_3)

lemma strip_undecane_sdf: "strip_lines 3 undecane_sdf = Inr (concat (replicate 11 (''C'' @ [nl])))"
  by (simp add: undecane_sdf_def str_index_def numeral_3_eq_3)


lemma demo_parse_methane: "demo_parse methane_sdf = (Some [6], [])"
  by (simp add: demo_parse_def strip_methane_sdf)

lemma demo_parse_methane_b: "demo_parse methane_sdf_b = (Some [6], [])"
  by (simp add: demo_parse_def strip_methane_sdf_b)

lemma demo_parse_undecane: "demo_parse undecane_sdf = (Some (replicate 11 6), [])"
proof -
  have "concat (replicate 11 (''C'' @ [nl])) \<noteq> ''C'' @ [nl]"
    by (simp add: numeral_eq_Suc)
  then show ?thesis
    by (simp add: demo_parse_def strip_undecane_sdf)
qed


subsection \<open>The block list\<close>

text \<open>
  C7. A request from an address on the configured block list is answered with the
  blocked-client error at once: the world is returned as it was, so nothing was validated
  or parsed, no molecule was normalised and the store was neither read nor written,
  whatever the form data holds.
\<close>

theorem blocked_client_short_circuit:
  assumes "block_ip env = Some blocked" and "remote_addr request \<in> set blocked"
  shows "ajax_submitquantum env now request w =
     (Returns [(''error'', ''Error 194 - blocked ip''),
               (''message'', ''IP address has been blocked for missue'')], w)"
  using assms by (simp add: ajax_submitquantum_def prepare_def check_request_def)

theorem blocked_client_short_circuit_witness:
  "block_ip demo_env = Some [''203.0.113.7'']
   \<and> remote_addr (methane_request\<lparr>remote_addr := ''203.0.113.7''\<rparr>) \<in> set [''203.0.113.7'']
   \<and> ajax_submitquantum demo_env 5 (methane_request\<lparr>remote_addr := ''203.0.113.7''\<rparr>) empty_world =
       (Returns [(''error'', ''Error 194 - blocked ip''),
                 (''message'', ''IP address has been blocked for missue'')], empty_world)"
proof -
  have b: "block_ip demo_env = Some [''203.0.113.7'']"
    by (simp add: demo_env_def)
  have r: "remote_addr (methane_request\<lparr>remote_addr := ''203.0.113.7''\<rparr>) \<in> set [''203.0.113.7'']"
    by simp
  from blocked_client_short_circuit [OF b r, of 5 empty_world] b r show ?thesis
    by blast
qed

subsection \<open>What the stages do to the world\<close>

lemma heavy_atoms_length: "length (heavy_atoms atoms) = length (filter (\<lambda>a. a \<noteq> 1) atoms)"
proof -
  have "filter (\<lambda>a. a \<noteq> 1) (map (nth atoms) [0..<length atoms])
        = map (nth atoms) (heavy_atoms atoms)"
    by (simp add: heavy_atoms_def filter_map comp_def)
  then have "length (filter (\<lambda>a. a \<noteq> 1) (map (nth atoms) [0..<length atoms])) = length (heavy_atoms atoms)"
    by simp
  then show ?thesis by (simp add: map_nth)
qed

lemma pipeline_runs_append [simp]:
  "pipeline_runs k (xs @ ys) = pipeline_runs k xs @ pipeline_runs k ys"
  by (simp add: pipeline_runs_def)

lemma pipeline_runs_emit:
  "pipeline_runs k (trace (emit e w)) =
     pipeline_runs k (trace w) @ pipeline_runs k [e]"
  by (simp add: emit_def)

lemma dbsession_emit [simp]: "dbsession (emit e w) = dbsession w"
  by (simp add: emit_def)

lemma parse_structure_world:
  assumes "parse_structure env sdf w = (r, w1)"
  shows "dbsession w1 = dbsession w" and "pipeline_runs k (trace w1) = pipeline_runs k (trace w)"
  using assms
  by (auto simp: parse_structure_def emit_def Let_def pipeline_runs_def
           split: prod.splits option.splits if_splits)

lemma add_hydrogens_step_world:
  assumes "add_hydrogens_step env addh m w = (r, w1)"
  shows "dbsession w1 = dbsession w" and "pipeline_runs k (trace w1) = pipeline_runs k (trace w)"
  using assms
  by (auto simp: add_hydrogens_step_def emit_def Let_def pipeline_runs_def
           split: if_splits sum.splits)

lemma add_hydrogens_step_no_reply:
  "add_hydrogens_step env addh m w \<noteq> (Inl (Returns p), w1)"
  by (auto simp: add_hydrogens_step_def Let_def split: if_splits sum.splits)

lemma check_heavy_atoms_world:
  assumes "check_heavy_atoms env m w = (r, w1)"
  shows "dbsession w1 = dbsession w" and "pipeline_runs k (trace w1) = pipeline_runs k (trace w)"
  using assms
  by (auto simp: check_heavy_atoms_def emit_def Let_def pipeline_runs_def split: if_splits)

lemma prepare_world:
  assumes "prepare env request w = (r, w1)"
  shows "dbsession w1 = dbsession w" and "pipeline_runs k (trace w1) = pipeline_runs k (trace w)"
proof -
  show "dbsession w1 = dbsession w"
    using assms
    by (auto simp: prepare_def parse_structure_world(1) add_hydrogens_step_world(1)
          check_heavy_atoms_world(1) split: sum.splits prod.splits)
  show "pipeline_runs k (trace w1) = pipeline_runs k (trace w)"
    using assms
    by (auto simp: prepare_def parse_structure_world(2) add_hydrogens_step_world(2)
          check_heavy_atoms_world(2) split: sum.splits prod.splits)
qed

lemma prepare_fingerprint:
  assumes "prepare env request w = (Inr (molobj, sdfstr, key), w1)"
  shows "\<exists>sdf. getitem (POST request) ''sdf'' = Some sdf \<and> fingerprint sdf = Inr (sdfstr, key)"
  using assms
  by (auto simp: prepare_def check_request_def split: sum.splits prod.splits if_splits option.splits)

subsection \<open>The hydrogen flag\<close>

text \<open>
  C10. The flag \<^verbatim>\<open>add_hydrogens\<close> is true exactly when the form has no field
  \<^verbatim>\<open>add_hydrogens\<close> or its value is the string \<^verbatim>\<open>1\<close>. With any other value the flag is
  false, and then the hydrogen step returns the molecule it was given after reading its
  atoms, without calling the toolkit to add hydrogens.
\<close>

theorem add_hydrogens_flag:
  assumes "check_request env request = Inr (sdf, add_hydrogens)"
  shows "(add_hydrogens \<longleftrightarrow>
            getitem (POST request) ''add_hydrogens'' = None
            \<or> getitem (POST request) ''add_hydrogens'' = Some ''1'')
         \<and> (\<not> add_hydrogens \<longrightarrow>
              add_hydrogens_step env add_hydrogens molobj w =
                (Inr molobj, emit (Call_molobj_to_atoms molobj) w))"
  using assms
  by (auto simp: check_request_def get_default_def add_hydrogens_step_def Let_def
           split: if_splits option.splits)

theorem add_hydrogens_flag_witness:
  "check_request demo_env (methane_request\<lparr>POST := [(''sdf'', methane_sdf), (''add_hydrogens'', ''true'')]\<rparr>)
     = Inr (methane_sdf, False)
   \<and> getitem [(''sdf'', methane_sdf), (''add_hydrogens'', ''true'')] ''add_hydrogens'' = Some ''true''
   \<and> add_hydrogens_step demo_env False [6] empty_world =
       (Inr [6], emit (Call_molobj_to_atoms [6]) empty_world)"
proof -
  have c: "check_request demo_env (methane_request\<lparr>POST := [(''sdf'', methane_sdf), (''add_hydrogens'', ''true'')]\<rparr>)
     = Inr (methane_sdf, False)"
    by (simp add: check_request_def demo_env_def methane_request_def getitem_def get_default_def
          methane_sdf_def)
  have g: "getitem [(''sdf'', methane_sdf), (''add_hydrogens'', ''true'')] ''add_hydrogens'' = Some ''true''"
    by (simp add: getitem_def)
  from add_hydrogens_flag [OF c, of "[6]" empty_world] c g show ?thesis
    by simp
qed

subsection \<open>The heavy-atom ceiling\<close>

text \<open>
  C3. The check counts the atoms whose atomic number is not 1. With more than ten of them
  the view ends with the max-atoms error, whose message names the limit of ten; with ten
  or fewer the check passes. The limit is the constant of the source, not read from the
  request or the settings.
\<close>

theorem heavy_atom_ceiling:
  "check_heavy_atoms env molobj w =
     (if 10 < length (filter (\<lambda>a. a \<noteq> 1) (molobj_to_atoms env molobj))
      then Inl (Returns [(''error'', ''Error 194 - max atoms error''),
                         (''message'', ''Stop Casper. Max ten heavy atoms.'')])
      else Inr (),
      emit (Call_molobj_to_atoms molobj) w)
   \<and> (check_request env request = Inr (sdf, add_hydrogens)
        \<longrightarrow> parse_structure env sdf w0 = (Inr parsed, w1)
        \<longrightarrow> add_hydrogens_step env add_hydrogens parsed w1 = (Inr molobj, w)
        \<longrightarrow> 10 < length (filter (\<lambda>a. a \<noteq> 1) (molobj_to_atoms env molobj))
        \<longrightarrow> ajax_submitquantum env now request w0 =
              (Returns [(''error'', ''Error 194 - max atoms error''),
                        (''message'', ''Stop Casper. Max ten heavy atoms.'')],
               emit (Call_molobj_to_atoms molobj) w))"
proof -
  have chk: "check_heavy_atoms env molobj w =
     (if 10 < length (filter (\<lambda>a. a \<noteq> 1) (molobj_to_atoms env molobj))
      then Inl (Returns [(''error'', ''Error 194 - max atoms error''),
                         (''message'', ''Stop Casper. Max ten heavy atoms.'')])
      else Inr (),
      emit (Call_molobj_to_atoms molobj) w)"
    by (simp add: check_heavy_atoms_def Let_def heavy_atoms_length max_atoms_def)
  then show ?thesis
    by (simp add: ajax_submitquantum_def prepare_def)
qed

theorem heavy_atom_ceiling_witness:
  "check_request demo_env (methane_request\<lparr>POST := [(''sdf'', undecane_sdf)]\<rparr>) = Inr (undecane_sdf, True)
   \<and> parse_structure demo_env undecane_sdf empty_world =
        (Inr (replicate 11 6),
         \<lparr>dbsession = [], trace = [Call_sdfstr_to_molobj undecane_sdf, Call_GetConformer (replicate 11 6)]\<rparr>)
   \<and> length (filter (\<lambda>a. a \<noteq> 1) (molobj_to_atoms demo_env (replicate 11 6))) = 11
   \<and> fst (ajax_submitquantum demo_env 5 (methane_request\<lparr>POST := [(''sdf'', undecane_sdf)]\<rparr>) empty_world) =
        Returns [(''error'', ''Error 194 - max atoms error''),
                 (''message'', ''Stop Casper. Max ten heavy atoms.'')]
   \<and> fst (check_heavy_atoms demo_env (replicate 10 6) empty_world) = Inr ()"
proof -
  let ?w1 = "\<lparr>dbsession = [], trace = [Call_sdfstr_to_molobj undecane_sdf, Call_GetConformer (replicate 11 6)]\<rparr> :: int list world"
  let ?w2 = "emit (Call_molobj_to_atoms (replicate 11 6)) ?w1"
  have c: "check_request demo_env (methane_request\<lparr>POST := [(''sdf'', undecane_sdf)]\<rparr>) = Inr (undecane_sdf, True)"
    by (simp add: check_request_def demo_env_def methane_request_def getitem_def get_default_def
          undecane_sdf_def)
  have p: "parse_structure demo_env undecane_sdf empty_world = (Inr (replicate 11 6), ?w1)"
    by (simp add: parse_structure_def demo_env_def demo_parse_undecane emit_def empty_world_def)
  have a: "add_hydrogens_step demo_env True (replicate 11 6) ?w1 = (Inr (replicate 11 6 @ [1, 1, 1, 1]),
             emit (Call_molobj_optimize (replicate 11 6 @ [1, 1, 1, 1])) (emit (Call_EmbedMultipleConfs (replicate 11 6 @ [1, 1, 1, 1]) 1)
               (emit (Call_AddHs (replicate 11 6)) ?w2)))"
    by (simp add: add_hydrogens_step_def demo_env_def Let_def)
  have n: "length (filter (\<lambda>a. a \<noteq> 1) (molobj_to_atoms demo_env (replicate 11 6 @ [1, 1, 1, 1]))) = 11"
    by (simp add: demo_env_def)
  have n': "length (filter (\<lambda>a. a \<noteq> 1) (molobj_to_atoms demo_env (replicate 11 6))) = 11"
    by (simp add: demo_env_def)
  have t: "length (filter (\<lambda>a. a \<noteq> 1) (molobj_to_atoms demo_env (replicate 10 6))) = 10"
    by (simp add: demo_env_def)
  from heavy_atom_ceiling [of demo_env "replicate 11 6 @ [1, 1, 1, 1]" _ "methane_request\<lparr>POST := [(''sdf'', undecane_sdf)]\<rparr>"
         undecane_sdf True empty_world "replicate 11 6" ?w1 5] c p a n
  have r: "fst (ajax_submitquantum demo_env 5 (methane_request\<lparr>POST := [(''sdf'', undecane_sdf)]\<rparr>) empty_world) =
        Returns [(''error'', ''Error 194 - max atoms error''),
                 (''message'', ''Stop Casper. Max ten heavy atoms.'')]"
    by simp
  from heavy_atom_ceiling [of demo_env "replicate 10 6" empty_world] t
  have q: "fst (check_heavy_atoms demo_env (replicate 10 6) empty_world) = Inr ()"
    by simp
  from c p n' r q show ?thesis by blast
qed

subsection \<open>The run on the small toolkit\<close>

lemma methane_sdf_nonempty: "methane_sdf \<noteq> []"
  by (simp add: methane_sdf_def)

lemma fingerprint_methane:
  "fingerprint methane_sdf = Inr (methane_canonical, methane_key)"
proof -
  have "replicate 3 nl = [nl, nl, nl]"
    by (simp add: numeral_3_eq_3)
  then show ?thesis
    by (simp add: fingerprint_def strip_methane_sdf Let_def methane_canonical_def methane_key_def)
qed

lemma prepare_methane:
  assumes "env = demo_env \<or> env = failing_env"
  shows "prepare env methane_request \<lparr>dbsession = rows, trace = es\<rparr> =
     (Inr ([6, 1, 1, 1, 1], methane_canonical, methane_key),
      \<lparr>dbsession = rows, trace = es @ methane_prepared\<rparr>)"
  using assms
  by (auto simp add: prepare_def check_request_def parse_structure_def add_hydrogens_step_def
        check_heavy_atoms_def heavy_atoms_length max_atoms_def fingerprint_methane
        failing_env_def demo_env_def demo_parse_methane methane_request_def getitem_def
        get_default_def emit_def Let_def methane_sdf_nonempty methane_prepared_def)

subsection \<open>A failing pipeline\<close>

lemma prepare_error_code:
  assumes "prepare env request w = (Inl (Returns p), w1)"
  shows "map_of p ''error'' \<in> {Some ''Error 194 - blocked ip'', Some ''Error 128 - empty post'',
           Some ''Error 132 - sdf key error'', Some ''Error 141 - rdkit error'',
           Some ''Error 194 - max atoms error''}"
  using assms
  by (auto simp: prepare_def check_request_def parse_structure_def check_heavy_atoms_def Let_def
           add_hydrogens_step_no_reply
           split: sum.splits prod.splits if_splits option.splits)

text \<open>
  C5. When the store has no row for the key and the pipeline raises, the view catches the
  exception. It logs the key with the exception and the serialised molecule, and these go
  to the log only: the reply is the fixed payload with the code \<^verbatim>\<open>293\<close>, in which
  nothing of the exception appears. No row is added, so the store is the one the
  request found. No reply of the earlier stages carries the code \<^verbatim>\<open>293\<close>.
\<close>

theorem pipeline_failure_contained:
  assumes "prepare env request w = (Inr (molobj, sdfstr, key), w1)"
    and "first_by_hashkey key (dbsession w1) = None"
    and "calculation_pipeline env
           \<lparr>info_sdfstr = sdfstr, info_molobj = molobj, info_hashkey = key\<rparr> = Inl e"
  shows "ajax_submitquantum env now request w =
           (Returns [(''error'', ''293''), (''message'', ''Internal server server. Uncaught exception'')],
            w1\<lparr>trace := trace w1 @
               [Call_query key,
                Log_info (key @ '' create''),
                Call_calculation_pipeline \<lparr>info_sdfstr = sdfstr, info_molobj = molobj, info_hashkey = key\<rparr>,
                Call_molobj_to_sdfstr molobj,
                Log_error (key @ '' PipelineError'') (Some e),
                Log_error (molobj_to_sdfstr env molobj) None]\<rparr>)
         \<and> dbsession (snd (ajax_submitquantum env now request w)) = dbsession w
         \<and> (\<forall>request' w' p w''. prepare env request' w' = (Inl (Returns p), w'')
               \<longrightarrow> map_of p ''error'' \<noteq> Some ''293'')"
proof -
  have run: "ajax_submitquantum env now request w =
           (Returns [(''error'', ''293''), (''message'', ''Internal server server. Uncaught exception'')],
            w1\<lparr>trace := trace w1 @
               [Call_query key,
                Log_info (key @ '' create''),
                Call_calculation_pipeline \<lparr>info_sdfstr = sdfstr, info_molobj = molobj, info_hashkey = key\<rparr>,
                Call_molobj_to_sdfstr molobj,
                Log_error (key @ '' PipelineError'') (Some e),
                Log_error (molobj_to_sdfstr env molobj) None]\<rparr>)"
    using assms by (simp add: ajax_submitquantum_def lookup_or_compute_def emit_def Let_def)
  have store: "dbsession (snd (ajax_submitquantum env now request w)) = dbsession w"
    using prepare_world(1) [OF assms(1)] by (simp add: run)
  have codes: "map_of p ''error'' \<noteq> Some ''293''"
    if "prepare env request' w' = (Inl (Returns p), w'')" for request' w' p w''
    using prepare_error_code [OF that] by auto
  from run store codes show ?thesis by blast
qed

theorem pipeline_failure_contained_witness:
  "prepare failing_env methane_request empty_world =
     (Inr ([6, 1, 1, 1, 1], methane_canonical, methane_key), \<lparr>dbsession = [], trace = methane_prepared\<rparr>)
   \<and> first_by_hashkey methane_key (dbsession \<lparr>dbsession = [], trace = methane_prepared\<rparr>) = None
   \<and> calculation_pipeline failing_env
        \<lparr>info_sdfstr = methane_canonical, info_molobj = [6, 1, 1, 1, 1], info_hashkey = methane_key\<rparr>
       = Inl ''gamess failed''
   \<and> ajax_submitquantum failing_env 5 methane_request empty_world =
       (Returns [(''error'', ''293''), (''message'', ''Internal server server. Uncaught exception'')],
        \<lparr>dbsession = [],
         trace = methane_prepared @
           [Call_query methane_key,
            Log_info (methane_key @ '' create''),
            Call_calculation_pipeline
              \<lparr>info_sdfstr = methane_canonical, info_molobj = [6, 1, 1, 1, 1], info_hashkey = methane_key\<rparr>,
            Call_molobj_to_sdfstr [6, 1, 1, 1, 1],
            Log_error (methane_key @ '' PipelineError'') (Some ''gamess failed''),
            Log_error ([nl, nl, nl] @ ''C'' @ [nl] @ ''H'' @ [nl] @ ''H'' @ [nl] @ ''H'' @ [nl] @ ''H'' @ [nl]) None]\<rparr>)"
proof -
  have p: "prepare failing_env methane_request empty_world =
     (Inr ([6, 1, 1, 1, 1], methane_canonical, methane_key), \<lparr>dbsession = [], trace = methane_prepared\<rparr>)"
    by (simp add: prepare_methane empty_world_def)
  have f: "first_by_hashkey methane_key (dbsession \<lparr>dbsession = [], trace = methane_prepared\<rparr>) = None"
    by (simp add: first_by_hashkey_def)
  have c: "calculation_pipeline failing_env
        \<lparr>info_sdfstr = methane_canonical, info_molobj = [6, 1, 1, 1, 1], info_hashkey = methane_key\<rparr>
       = Inl ''gamess failed''"
    by (simp add: failing_env_def)
  have s: "molobj_to_sdfstr failing_env [6, 1, 1, 1, 1] =
      [nl, nl, nl] @ ''C'' @ [nl] @ ''H'' @ [nl] @ ''H'' @ [nl] @ ''H'' @ [nl] @ ''H'' @ [nl]"
    by (simp add: failing_env_def demo_env_def)
  from pipeline_failure_contained [OF p f c, of 5] p f c s show ?thesis
    by simp
qed

subsection \<open>Resubmission\<close>

lemma first_by_hashkey_None: "first_by_hashkey k rows = None \<longleftrightarrow> k \<notin> hashkey ` set rows"
  by (auto simp: first_by_hashkey_def find_None_iff)

lemma set_created_keys [simp]: "map hashkey (set_created k t rows) = map hashkey rows"
  by (induction rows) auto

lemma set_created_split:
  assumes "first_by_hashkey k rows = Some c"
  shows "\<exists>pre post. rows = pre @ c # post \<and> (\<forall>x\<in>set pre. hashkey x \<noteq> k) \<and> hashkey c = k
           \<and> set_created k t rows = pre @ c\<lparr>created := t\<rparr> # post"
  using assms
proof (induction rows)
  case Nil
  then show ?case by (simp add: first_by_hashkey_def)
next
  case (Cons r rows)
  show ?case
  proof (cases "hashkey r = k")
    case True
    with Cons.prems have "r = c" by (simp add: first_by_hashkey_def)
    with True have "r # rows = [] @ c # rows \<and> (\<forall>x\<in>set []. hashkey x \<noteq> k) \<and> hashkey c = k
           \<and> set_created k t (r # rows) = [] @ c\<lparr>created := t\<rparr> # rows"
      by simp
    then show ?thesis by blast
  next
    case False
    with Cons.prems have "first_by_hashkey k rows = Some c" by (simp add: first_by_hashkey_def)
    from Cons.IH [OF this] obtain pre post where
      "rows = pre @ c # post" "\<forall>x\<in>set pre. hashkey x \<noteq> k" "hashkey c = k"
      "set_created k t rows = pre @ c\<lparr>created := t\<rparr> # post"
      by blast
    with False have "r # rows = (r # pre) @ c # post \<and> (\<forall>x\<in>set (r # pre). hashkey x \<noteq> k) \<and> hashkey c = k
           \<and> set_created k t (r # rows) = (r # pre) @ c\<lparr>created := t\<rparr> # post"
      by simp
    then show ?thesis by blast
  qed
qed

lemma lookup_or_compute_hit:
  assumes "first_by_hashkey key (dbsession w) = Some c"
  shows "lookup_or_compute env now molobj sdfstr key w =
     (Returns [(''hashkey'', key)],
      w\<lparr>dbsession := set_created key now (dbsession w),
        trace := trace w @ [Call_query key, Log_info (key @ '' exists'')]\<rparr>)"
  using assms by (simp add: lookup_or_compute_def emit_def Let_def)

lemma lookup_or_compute_keys:
  "hashkey ` set (dbsession w) \<subseteq>
     hashkey ` set (dbsession (snd (lookup_or_compute env now molobj sdfstr key w)))"
proof -
  have "hashkey ` set (set_created key now (dbsession w)) = hashkey ` set (dbsession w)"
    by (simp only: set_map [symmetric] set_created_keys)
  then show ?thesis
    by (auto simp: lookup_or_compute_def emit_def Let_def split: option.splits sum.splits)
qed

lemma lookup_or_compute_runs:
  assumes "first_by_hashkey key (dbsession w) \<noteq> None \<or> key \<noteq> k"
  shows "pipeline_runs k (trace (snd (lookup_or_compute env now molobj sdfstr key w)))
           = pipeline_runs k (trace w)"
  using assms
  by (auto simp: lookup_or_compute_def emit_def Let_def pipeline_runs_def
           split: option.splits sum.splits)


lemma ajax_submitquantum_keys:
  "hashkey ` set (dbsession w) \<subseteq> hashkey ` set (dbsession (snd (ajax_submitquantum env now request w)))"
proof (cases "prepare env request w")
  case (Pair r w1)
  then have db: "dbsession w1 = dbsession w" by (rule prepare_world(1))
  show ?thesis
  proof (cases r)
    case (Inl out)
    with Pair db show ?thesis by (simp add: ajax_submitquantum_def)
  next
    case (Inr t)
    obtain molobj sdfstr key where "t = (molobj, sdfstr, key)" by (cases t) auto
    with Pair Inr db lookup_or_compute_keys [of w1 env now molobj sdfstr key]
    show ?thesis by (simp add: ajax_submitquantum_def)
  qed
qed

lemma ajax_submitquantum_runs:
  assumes "k \<in> hashkey ` set (dbsession w)"
  shows "pipeline_runs k (trace (snd (ajax_submitquantum env now request w))) = pipeline_runs k (trace w)"
proof (cases "prepare env request w")
  case (Pair r w1)
  then have db: "dbsession w1 = dbsession w" and tr: "pipeline_runs k (trace w1) = pipeline_runs k (trace w)"
    by (rule prepare_world)+
  show ?thesis
  proof (cases r)
    case (Inl out)
    with Pair tr show ?thesis by (simp add: ajax_submitquantum_def)
  next
    case (Inr t)
    obtain molobj sdfstr key where t: "t = (molobj, sdfstr, key)" by (cases t) auto
    have "first_by_hashkey key (dbsession w1) \<noteq> None \<or> key \<noteq> k"
      using assms db by (auto simp: first_by_hashkey_None)
    from lookup_or_compute_runs [OF this] Pair Inr t tr
    show ?thesis by (simp add: ajax_submitquantum_def)
  qed
qed

lemma submit_all_runs:
  assumes "k \<in> hashkey ` set (dbsession w)"
  shows "pipeline_runs k (trace (submit_all env subs w)) = pipeline_runs k (trace w)"
  using assms
proof (induction subs arbitrary: w)
  case Nil
  then show ?case by simp
next
  case (Cons sub subs)
  obtain now request where sub: "sub = (now, request)" by (cases sub)
  let ?w' = "snd (ajax_submitquantum env now request w)"
  from Cons.prems ajax_submitquantum_keys [of w env now request]
  have "k \<in> hashkey ` set (dbsession ?w')" by blast
  from Cons.IH [OF this] ajax_submitquantum_runs [OF Cons.prems, of env now request] sub
  show ?case by simp
qed

text \<open>
  C1, as the code has it. A submission whose key has a row in the store is answered with
  the key alone. The pipeline does not run, no row is added, and the store changes in one
  place: the first row with that key gets the current time. So once a row for a key is in
  the store, no later submission makes the pipeline run for that key, however many follow.
\<close>

theorem resubmission_refreshes:
  assumes "prepare env request w = (Inr (molobj, sdfstr, key), w1)"
    and "first_by_hashkey key (dbsession w) = Some c"
  shows "ajax_submitquantum env now request w =
           (Returns [(''hashkey'', key)],
            w1\<lparr>dbsession := set_created key now (dbsession w),
               trace := trace w1 @ [Call_query key, Log_info (key @ '' exists'')]\<rparr>)
         \<and> (\<exists>pre post. dbsession w = pre @ c # post \<and> (\<forall>x\<in>set pre. hashkey x \<noteq> key)
               \<and> set_created key now (dbsession w) = pre @ c\<lparr>created := now\<rparr> # post)
         \<and> (\<forall>k. pipeline_runs k (trace (snd (ajax_submitquantum env now request w)))
                 = pipeline_runs k (trace w))
         \<and> (\<forall>subs. pipeline_runs key (trace (submit_all env subs w)) = pipeline_runs key (trace w))"
proof -
  have db: "dbsession w1 = dbsession w"
    using assms(1) by (rule prepare_world(1))
  have run: "ajax_submitquantum env now request w =
           (Returns [(''hashkey'', key)],
            w1\<lparr>dbsession := set_created key now (dbsession w),
               trace := trace w1 @ [Call_query key, Log_info (key @ '' exists'')]\<rparr>)"
    using assms lookup_or_compute_hit [of key w1 c env now molobj sdfstr]
    by (simp add: ajax_submitquantum_def db)
  have row: "\<exists>pre post. dbsession w = pre @ c # post \<and> (\<forall>x\<in>set pre. hashkey x \<noteq> key)
               \<and> set_created key now (dbsession w) = pre @ c\<lparr>created := now\<rparr> # post"
    using set_created_split [OF assms(2), of now] by blast
  have none: "pipeline_runs k (trace (snd (ajax_submitquantum env now request w)))
                 = pipeline_runs k (trace w)" for k
    using prepare_world(2) [OF assms(1), of k] by (simp add: run pipeline_runs_def)
  have "key \<in> hashkey ` set (dbsession w)"
    using assms(2) first_by_hashkey_None [of key "dbsession w"] by simp
  then have later: "pipeline_runs key (trace (submit_all env subs w)) = pipeline_runs key (trace w)" for subs
    by (rule submit_all_runs)
  from run row none later show ?thesis by blast
qed

theorem resubmission_refreshes_witness:
  "prepare demo_env methane_request
       \<lparr>dbsession = [\<lparr>hashkey = methane_key, created = 1, columns = []\<rparr>], trace = []\<rparr> =
     (Inr ([6, 1, 1, 1, 1], methane_canonical, methane_key),
      \<lparr>dbsession = [\<lparr>hashkey = methane_key, created = 1, columns = []\<rparr>], trace = methane_prepared\<rparr>)
   \<and> first_by_hashkey methane_key [\<lparr>hashkey = methane_key, created = 1, columns = []\<rparr>]
       = Some \<lparr>hashkey = methane_key, created = 1, columns = []\<rparr>
   \<and> ajax_submitquantum demo_env 7 methane_request
       \<lparr>dbsession = [\<lparr>hashkey = methane_key, created = 1, columns = []\<rparr>], trace = []\<rparr> =
     (Returns [(''hashkey'', methane_key)],
      \<lparr>dbsession = [\<lparr>hashkey = methane_key, created = 7, columns = []\<rparr>],
       trace = methane_prepared @ [Call_query methane_key, Log_info (methane_key @ '' exists'')]\<rparr>)"
proof -
  let ?w = "\<lparr>dbsession = [\<lparr>hashkey = methane_key, created = 1, columns = []\<rparr>], trace = []\<rparr> :: int list world"
  have p: "prepare demo_env methane_request ?w =
     (Inr ([6, 1, 1, 1, 1], methane_canonical, methane_key),
      \<lparr>dbsession = [\<lparr>hashkey = methane_key, created = 1, columns = []\<rparr>], trace = methane_prepared\<rparr>)"
    by (simp add: prepare_methane)
  have f: "first_by_hashkey methane_key (dbsession ?w) = Some \<lparr>hashkey = methane_key, created = 1, columns = []\<rparr>"
    by (simp add: first_by_hashkey_def)
  from resubmission_refreshes [OF p f, of 7] p f show ?thesis
    by simp
qed

text \<open>
  Without a row the pipeline runs again at every resubmission: a pipeline that raises (or
  returns no row) stores nothing, so the same text submitted twice is computed twice.
\<close>

lemma failing_run:
  "ajax_submitquantum failing_env now methane_request \<lparr>dbsession = [], trace = es\<rparr> =
     (Returns [(''error'', ''293''), (''message'', ''Internal server server. Uncaught exception'')],
      \<lparr>dbsession = [],
       trace = es @ methane_prepared @
         [Call_query methane_key,
          Log_info (methane_key @ '' create''),
          Call_calculation_pipeline
            \<lparr>info_sdfstr = methane_canonical, info_molobj = [6, 1, 1, 1, 1], info_hashkey = methane_key\<rparr>,
          Call_molobj_to_sdfstr [6, 1, 1, 1, 1],
          Log_error (methane_key @ '' PipelineError'') (Some ''gamess failed''),
          Log_error (molobj_to_sdfstr failing_env [6, 1, 1, 1, 1]) None]\<rparr>)"
  by (simp add: ajax_submitquantum_def prepare_methane lookup_or_compute_def first_by_hashkey_def
        emit_def Let_def failing_env_def)

theorem one_computation_per_key_counterexample:
  "\<not> length (pipeline_runs methane_key
        (trace (submit_all failing_env [(1, methane_request), (2, methane_request)] empty_world))) \<le> 1"
proof -
  have "pipeline_runs methane_key
          (trace (submit_all failing_env [(1, methane_request), (2, methane_request)] empty_world)) =
        [Call_calculation_pipeline
            \<lparr>info_sdfstr = methane_canonical, info_molobj = [6, 1, 1, 1, 1], info_hashkey = methane_key\<rparr>,
         Call_calculation_pipeline
            \<lparr>info_sdfstr = methane_canonical, info_molobj = [6, 1, 1, 1, 1], info_hashkey = methane_key\<rparr>]"
    by (simp add: empty_world_def failing_run pipeline_runs_def methane_prepared_def)
  then show ?thesis by simp
qed

subsection \<open>Diagnostics of a parse failure\<close>








subsection \<open>Adding hydrogens\<close>






subsection \<open>A missing or empty structure field\<close>

text \<open>
  For a client that is not blocked: an empty form and an empty \<^verbatim>\<open>sdf\<close> value are answered
  with an error payload and leave the world as it was. A form that has fields but no
  field \<^verbatim>\<open>sdf\<close> is not: line 129 indexes the form, and the KeyError escapes the view.
\<close>

lemma malformed_input_replies:
  assumes "block_ip env = None \<or> (\<exists>blocked. block_ip env = Some blocked \<and> remote_addr request \<notin> set blocked)"
  shows "POST request = [] \<Longrightarrow>
           ajax_submitquantum env now request w =
             (Returns [(''error'', ''Error 128 - empty post''), (''message'', ''Error. Empty post.'')], w)"
    and "getitem (POST request) ''sdf'' = Some [] \<Longrightarrow>
           ajax_submitquantum env now request w =
             (Returns [(''error'', ''Error 132 - sdf key error''),
                       (''message'', ''Error. Missing information.'')], w)"
    and "POST request \<noteq> [] \<Longrightarrow> getitem (POST request) ''sdf'' = None \<Longrightarrow>
           ajax_submitquantum env now request w = (Raises (KeyError ''sdf''), w)"
  using assms
  by (auto simp: ajax_submitquantum_def prepare_def check_request_def getitem_def)

text \<open>
  C4. The specification asks for an error payload whenever the structure field is missing
  or empty. The view run on a form whose only field is \<^verbatim>\<open>add_hydrogens\<close> raises KeyError
  instead, while \<^verbatim>\<open>ajax_sdf_to_smiles\<close>, which guards the same lookup with
  \<^verbatim>\<open>try\<close>, answers the same form with its error payload.
\<close>

theorem missing_sdf_field_raises:
  "ajax_submitquantum demo_env 5
       \<lparr>remote_addr = ''198.51.100.1'', POST = [(''add_hydrogens'', ''1'')]\<rparr> empty_world
     = (Raises (KeyError ''sdf''), empty_world)
   \<and> ajax_sdf_to_smiles demo_env \<lparr>remote_addr = ''198.51.100.1'', POST = [(''add_hydrogens'', ''1'')]\<rparr>
     = Returns [(''error'', ''Error 60 - get error''), (''message'', ''Error. Missing information.'')]"
  by (simp add: ajax_submitquantum_def prepare_def check_request_def ajax_sdf_to_smiles_def
        getitem_def demo_env_def)

subsection \<open>The key and the header lines\<close>

lemma str_index_line:
  assumes "nl \<notin> set h"
  shows "str_index (h @ nl # rest) nl = Some (length h)"
proof -
  from assms have "takeWhile (\<lambda>x. x \<noteq> nl) (h @ nl # rest) = h"
    by (induction h) auto
  then show ?thesis by (simp add: str_index_def)
qed

lemma strip_line:
  assumes "nl \<notin> set h"
  shows "strip_lines (Suc n) (h @ nl # rest) = strip_lines n rest"
  using assms by (simp add: str_index_line)

lemma strip_three_lines:
  assumes "nl \<notin> set h1" "nl \<notin> set h2" "nl \<notin> set h3"
  shows "strip_lines 3 (h1 @ nl # h2 @ nl # h3 @ nl # body) = Inr body"
  using assms by (simp add: numeral_3_eq_3 strip_line del: strip_lines.simps(2))

lemma fingerprint_header:
  assumes "nl \<notin> set h1" "nl \<notin> set h2" "nl \<notin> set h3"
  shows "fingerprint (h1 @ nl # h2 @ nl # h3 @ nl # body) =
           Inr (replicate 3 nl @ body, md5_hexdigest (replicate 3 nl @ body))"
  using strip_three_lines [OF assms] by (simp add: fingerprint_def Let_def)

text \<open>
  C6. Two texts that differ only in their first three lines have the same hashed text and
  the same key, and so have two submissions of them that reach the store lookup, whatever
  the toolkit, the store and the time of either. With the same three lines on both sides
  this says that the key of a text is the same whenever it is computed.
\<close>

theorem header_noise_invariance:
  assumes "nl \<notin> set h1" "nl \<notin> set h2" "nl \<notin> set h3"
    and "nl \<notin> set g1" "nl \<notin> set g2" "nl \<notin> set g3"
  shows "fingerprint (h1 @ nl # h2 @ nl # h3 @ nl # body) = fingerprint (g1 @ nl # g2 @ nl # g3 @ nl # body)
         \<and> (prepare env request w = (Inr (molobj, sdfstr, key), w1)
              \<longrightarrow> prepare env' request' w' = (Inr (molobj', sdfstr', key'), w1')
              \<longrightarrow> getitem (POST request) ''sdf'' = Some (h1 @ nl # h2 @ nl # h3 @ nl # body)
              \<longrightarrow> getitem (POST request') ''sdf'' = Some (g1 @ nl # g2 @ nl # g3 @ nl # body)
              \<longrightarrow> key = key' \<and> key = md5_hexdigest (replicate 3 nl @ body))"
proof -
  have h: "fingerprint (h1 @ nl # h2 @ nl # h3 @ nl # body) =
             Inr (replicate 3 nl @ body, md5_hexdigest (replicate 3 nl @ body))"
    using assms(1-3) by (rule fingerprint_header)
  have g: "fingerprint (g1 @ nl # g2 @ nl # g3 @ nl # body) =
             Inr (replicate 3 nl @ body, md5_hexdigest (replicate 3 nl @ body))"
    using assms(4-6) by (rule fingerprint_header)
  have keys: "key = key' \<and> key = md5_hexdigest (replicate 3 nl @ body)"
    if "prepare env request w = (Inr (molobj, sdfstr, key), w1)"
      and "prepare env' request' w' = (Inr (molobj', sdfstr', key'), w1')"
      and "getitem (POST request) ''sdf'' = Some (h1 @ nl # h2 @ nl # h3 @ nl # body)"
      and "getitem (POST request') ''sdf'' = Some (g1 @ nl # g2 @ nl # g3 @ nl # body)"
    using prepare_fingerprint [OF that(1)] prepare_fingerprint [OF that(2)] that(3,4) h g
    by auto
  from h g keys show ?thesis by simp
qed

lemma prepare_methane_b:
  "prepare failing_env methane_request_b \<lparr>dbsession = rows, trace = es\<rparr> =
     (Inr ([6, 1, 1, 1, 1], methane_canonical, methane_key),
      \<lparr>dbsession = rows,
       trace = es @ Call_sdfstr_to_molobj methane_sdf_b # tl methane_prepared\<rparr>)"
proof -
  have "replicate 3 nl = [nl, nl, nl]"
    by (simp add: numeral_3_eq_3)
  then have f: "fingerprint methane_sdf_b = Inr (methane_canonical, methane_key)"
    by (simp add: fingerprint_def strip_methane_sdf_b Let_def methane_canonical_def methane_key_def)
  have n: "methane_sdf_b \<noteq> []"
    by (simp add: methane_sdf_b_def)
  show ?thesis
    by (simp add: prepare_def check_request_def parse_structure_def add_hydrogens_step_def
        check_heavy_atoms_def heavy_atoms_length max_atoms_def f n
        failing_env_def demo_env_def demo_parse_methane_b methane_request_b_def getitem_def
        get_default_def emit_def Let_def methane_prepared_def)
qed

theorem header_noise_invariance_witness:
  "nl \<notin> set ''methane'' \<and> nl \<notin> set ''RDKit 3D'' \<and> nl \<notin> set []
   \<and> nl \<notin> set ''CH4'' \<and> nl \<notin> set ''OpenBabel 2026'' \<and> nl \<notin> set ''resubmitted''
   \<and> fingerprint methane_sdf = fingerprint methane_sdf_b
   \<and> fst (prepare demo_env methane_request empty_world)
       = Inr ([6, 1, 1, 1, 1], methane_canonical, md5_hexdigest (replicate 3 nl @ ''C'' @ [nl]))
   \<and> fst (prepare failing_env methane_request_b
             \<lparr>dbsession = [\<lparr>hashkey = ''0'', created = 3, columns = []\<rparr>], trace = [Log_info ''restart'']\<rparr>)
       = Inr ([6, 1, 1, 1, 1], methane_canonical, md5_hexdigest (replicate 3 nl @ ''C'' @ [nl]))"
proof -
  let ?wb = "\<lparr>dbsession = [\<lparr>hashkey = ''0'', created = 3, columns = []\<rparr>], trace = [Log_info ''restart'']\<rparr> :: int list world"
  have n: "nl \<notin> set ''methane''" "nl \<notin> set ''RDKit 3D''" "nl \<notin> set []"
    "nl \<notin> set ''CH4''" "nl \<notin> set ''OpenBabel 2026''" "nl \<notin> set ''resubmitted''"
    by simp_all
  have a: "methane_sdf = ''methane'' @ nl # ''RDKit 3D'' @ nl # [] @ nl # (''C'' @ [nl])"
    by (simp add: methane_sdf_def)
  have b: "methane_sdf_b = ''CH4'' @ nl # ''OpenBabel 2026'' @ nl # ''resubmitted'' @ nl # (''C'' @ [nl])"
    by (simp add: methane_sdf_b_def)
  have pa: "prepare demo_env methane_request empty_world =
      (Inr ([6, 1, 1, 1, 1], methane_canonical, methane_key), \<lparr>dbsession = [], trace = [] @ methane_prepared\<rparr>)"
    unfolding empty_world_def by (rule prepare_methane) simp
  have pb: "prepare failing_env methane_request_b ?wb =
      (Inr ([6, 1, 1, 1, 1], methane_canonical, methane_key),
       \<lparr>dbsession = [\<lparr>hashkey = ''0'', created = 3, columns = []\<rparr>],
        trace = [Log_info ''restart''] @ Call_sdfstr_to_molobj methane_sdf_b # tl methane_prepared\<rparr>)"
    by (rule prepare_methane_b)
  have ga: "getitem (POST methane_request) ''sdf'' = Some (''methane'' @ nl # ''RDKit 3D'' @ nl # [] @ nl # (''C'' @ [nl]))"
    by (simp add: methane_request_def getitem_def methane_sdf_def)
  have gb: "getitem (POST methane_request_b) ''sdf'' = Some (''CH4'' @ nl # ''OpenBabel 2026'' @ nl # ''resubmitted'' @ nl # (''C'' @ [nl]))"
    by (simp add: methane_request_b_def getitem_def methane_sdf_b_def)
  note t = header_noise_invariance [OF n, of "''C'' @ [nl]" demo_env methane_request empty_world
      "[6, 1, 1, 1, 1]" methane_canonical methane_key _ failing_env methane_request_b ?wb
      "[6, 1, 1, 1, 1]" methane_canonical methane_key]
  from t have f: "fingerprint methane_sdf = fingerprint methane_sdf_b"
    unfolding a b by (rule conjunct1)
  from t pa pb ga gb have k: "methane_key = md5_hexdigest (replicate 3 nl @ ''C'' @ [nl])"
    by blast
  from n f pa pb k show ?thesis by simp
qed

subsection \<open>The key\<close>

text \<open>The digest agrees with the test suite of RFC 1321 on the empty text and on \<^verbatim>\<open>abc\<close>.\<close>

lemma md5_empty: "md5_hexdigest [] = ''d41d8cd98f00b204e9800998ecf8427e''"
  by code_simp

lemma md5_abc: "md5_hexdigest ''abc'' = ''900150983cd24fb0d6963f7d28e17f72''"
  by code_simp

lemma md5_methane_canonical:
  "md5_hexdigest methane_canonical = ''6140ee5bf9101b7fb54953daf2673197''"
  unfolding methane_canonical_def by code_simp

lemma md5_serialized_methane:
  "md5_hexdigest ([nl, nl, nl] @ ''C'' @ [nl] @ ''H'' @ [nl] @ ''H'' @ [nl] @ ''H'' @ [nl] @ ''H'' @ [nl])
     = ''5eda3f3e84abb98e28c42fcb93171f9a''"
  by code_simp

lemma md5_digest_length: "length (md5_digest msg) = 16"
  by (simp add: md5_digest_def split: prod.splits)

lemma hexlify_length: "length (hexlify bs) = 2 * length bs"
  by (induction bs) (simp_all add: hexlify_def)

lemma hexdigit_hex:
  assumes "n < 16"
  shows "hexdigit n \<in> set ''0123456789abcdef''"
proof -
  have "''0123456789abcdef'' ! n \<in> set ''0123456789abcdef''"
    using assms by (intro nth_mem) simp
  then show ?thesis by (simp only: hexdigit_def)
qed

lemma hexlify_hex: "set (hexlify bs) \<subseteq> set ''0123456789abcdef''"
proof -
  define H where "H = set ''0123456789abcdef''"
  have "set (hexlify bs) \<subseteq> H"
  proof (induction bs)
    case Nil
    show ?case by (simp add: hexlify_def)
  next
    case (Cons b bs)
    have "unat b < 2 ^ LENGTH(8)"
      by (rule unsigned_less)
    then have "unat b < 256"
      by simp
    then have "unat b div 16 < 16" and "unat b mod 16 < 16"
      by simp_all
    then have "hexdigit (unat b div 16) \<in> H" and "hexdigit (unat b mod 16) \<in> H"
      unfolding H_def by (simp_all only: hexdigit_hex)
    moreover have "hexlify (b # bs) = hexdigit (unat b div 16) # hexdigit (unat b mod 16) # hexlify bs"
      by (simp add: hexlify_def)
    ultimately show ?case
      using Cons.IH by simp
  qed
  then show ?thesis by (simp only: H_def)
qed

lemma md5_hexdigest_shape:
  "length (md5_hexdigest s) = 32 \<and> set (md5_hexdigest s) \<subseteq> set ''0123456789abcdef''"
  using hexlify_hex [of "md5_digest (map of_char s)"]
  by (simp add: md5_hexdigest_def hexlify_length md5_digest_length)

lemma split_lines_nonempty [simp]: "split_lines s \<noteq> []"
  by (induction s) (auto split: list.splits)

lemma split_lines_line:
  assumes "nl \<notin> set h"
  shows "split_lines (h @ nl # rest) = h # split_lines rest"
  using assms by (induction h) auto

lemma split_lines_blank: "split_lines (replicate n nl @ rest) = replicate n [] @ split_lines rest"
  by (induction n) auto

lemma first_line_split:
  assumes "nl \<in> set s"
  shows "s = takeWhile (\<lambda>x. x \<noteq> nl) s @ nl # drop (length (takeWhile (\<lambda>x. x \<noteq> nl) s) + 1) s"
  using assms by (induction s) auto

lemma strip_lines_split_lines:
  assumes "strip_lines n s = Inr rest"
  shows "split_lines rest = drop n (split_lines s) \<and> n < length (split_lines s)"
  using assms
proof (induction n arbitrary: s)
  case 0
  have "0 < length (split_lines s)" by simp
  moreover from 0 have "rest = s" by simp
  ultimately show ?case by simp
next
  case (Suc n)
  let ?h = "takeWhile (\<lambda>x. x \<noteq> nl) s"
  let ?s' = "drop (length ?h + 1) s"
  from Suc.prems have mem: "nl \<in> set s" and next_round: "strip_lines n ?s' = Inr rest"
    by (auto simp: str_index_def split: if_splits)
  have "nl \<notin> set ?h"
    by (auto dest: set_takeWhileD)
  then have "split_lines (?h @ nl # ?s') = ?h # split_lines ?s'"
    by (rule split_lines_line)
  with first_line_split [OF mem] have sl: "split_lines s = ?h # split_lines ?s'"
    by simp
  from Suc.IH [OF next_round] sl show ?case by simp
qed

text \<open>
  C2, as the code has it. For a submission that passes parsing, the conformer test and the
  heavy-atom check, the hashed text comes from the submitted text, not from a
  serialisation of the normalised molecule: everything up to and including each of the
  first three newlines is dropped and three newlines are put in front, which needs a text
  with at least three newlines. Read as lines, the first three are replaced by empty lines
  and the others are kept in order, so the number of lines is unchanged. The key is the
  MD5 digest of that text: 32 lower-case hexadecimal digits, 128 bits.
\<close>

theorem key_of_submitted_text:
  assumes "prepare env request w = (Inr (molobj, sdfstr, key), w1)"
  shows "\<exists>sdf rest. getitem (POST request) ''sdf'' = Some sdf
           \<and> strip_lines 3 sdf = Inr rest
           \<and> sdfstr = replicate 3 nl @ rest
           \<and> key = md5_hexdigest sdfstr
           \<and> length key = 32 \<and> set key \<subseteq> set ''0123456789abcdef''
           \<and> split_lines sdfstr = replicate 3 [] @ drop 3 (split_lines sdf)
           \<and> length (split_lines sdfstr) = length (split_lines sdf)"
proof -
  from prepare_fingerprint [OF assms] obtain sdf where
    sdf: "getitem (POST request) ''sdf'' = Some sdf" and fp: "fingerprint sdf = Inr (sdfstr, key)"
    by blast
  from fp obtain rest where
    strip: "strip_lines 3 sdf = Inr rest" and canon: "sdfstr = replicate 3 nl @ rest"
    and digest: "key = md5_hexdigest sdfstr"
    by (auto simp: fingerprint_def Let_def split: sum.splits)
  from strip_lines_split_lines [OF strip] have
    lines: "split_lines rest = drop 3 (split_lines sdf)" and enough: "3 < length (split_lines sdf)"
    by simp_all
  have split: "split_lines sdfstr = replicate 3 [] @ drop 3 (split_lines sdf)"
    by (simp only: canon split_lines_blank lines)
  have count: "length (split_lines sdfstr) = length (split_lines sdf)"
    using enough by (simp add: split)
  from md5_hexdigest_shape [of sdfstr] digest
  have shape: "length key = 32 \<and> set key \<subseteq> set ''0123456789abcdef''"
    by simp
  from sdf strip canon digest shape split count show ?thesis by blast
qed

theorem key_of_submitted_text_witness:
  "prepare demo_env methane_request empty_world =
     (Inr ([6, 1, 1, 1, 1], methane_canonical, methane_key), \<lparr>dbsession = [], trace = methane_prepared\<rparr>)
   \<and> getitem (POST methane_request) ''sdf'' = Some methane_sdf
   \<and> strip_lines 3 methane_sdf = Inr (''C'' @ [nl])
   \<and> methane_canonical = replicate 3 nl @ ''C'' @ [nl]
   \<and> methane_key = ''6140ee5bf9101b7fb54953daf2673197''
   \<and> split_lines methane_sdf = [''methane'', ''RDKit 3D'', [], ''C'', []]
   \<and> split_lines methane_canonical = [[], [], [], ''C'', []]"
proof -
  have p: "prepare demo_env methane_request empty_world =
     (Inr ([6, 1, 1, 1, 1], methane_canonical, methane_key), \<lparr>dbsession = [], trace = methane_prepared\<rparr>)"
    by (simp add: prepare_methane empty_world_def)
  have g: "getitem (POST methane_request) ''sdf'' = Some methane_sdf"
    by (simp add: methane_request_def getitem_def)
  have c: "methane_canonical = replicate 3 nl @ ''C'' @ [nl]"
    by (simp add: methane_canonical_def numeral_3_eq_3)
  have k: "methane_key = ''6140ee5bf9101b7fb54953daf2673197''"
    by (simp only: methane_key_def md5_methane_canonical)
  have l: "split_lines methane_sdf = [''methane'', ''RDKit 3D'', [], ''C'', []]"
    by (simp add: methane_sdf_def)
  from key_of_submitted_text [OF p] g
  have "split_lines methane_canonical = replicate 3 [] @ drop 3 (split_lines methane_sdf)"
    by auto
  with l have m: "split_lines methane_canonical = [[], [], [], ''C'', []]"
    by (simp add: numeral_3_eq_3)
  from p g strip_methane_sdf c k l m show ?thesis by blast
qed

text \<open>
  The key of \<open>methane_request\<close> is the digest of the submitted carbon line under three
  empty lines. The normalised molecule has four hydrogens more; its serialisation, hashed
  the same way, has another digest.
\<close>

theorem key_of_serialization_counterexample:
  "fst (prepare demo_env methane_request empty_world) =
     Inr ([6, 1, 1, 1, 1], [nl, nl, nl] @ ''C'' @ [nl], ''6140ee5bf9101b7fb54953daf2673197'')
   \<and> molobj_to_sdfstr demo_env [6, 1, 1, 1, 1] =
       [nl, nl, nl] @ ''C'' @ [nl] @ ''H'' @ [nl] @ ''H'' @ [nl] @ ''H'' @ [nl] @ ''H'' @ [nl]
   \<and> fingerprint (molobj_to_sdfstr demo_env [6, 1, 1, 1, 1]) =
       Inr ([nl, nl, nl] @ ''C'' @ [nl] @ ''H'' @ [nl] @ ''H'' @ [nl] @ ''H'' @ [nl] @ ''H'' @ [nl],
            ''5eda3f3e84abb98e28c42fcb93171f9a'')
   \<and> ''6140ee5bf9101b7fb54953daf2673197'' \<noteq> ''5eda3f3e84abb98e28c42fcb93171f9a''"
proof -
  have p: "fst (prepare demo_env methane_request empty_world) =
     Inr ([6, 1, 1, 1, 1], [nl, nl, nl] @ ''C'' @ [nl], ''6140ee5bf9101b7fb54953daf2673197'')"
    using md5_methane_canonical
    by (simp add: prepare_methane empty_world_def methane_key_def methane_canonical_def)
  have s: "molobj_to_sdfstr demo_env [6, 1, 1, 1, 1] =
       [nl, nl, nl] @ ''C'' @ [nl] @ ''H'' @ [nl] @ ''H'' @ [nl] @ ''H'' @ [nl] @ ''H'' @ [nl]"
    by (simp add: demo_env_def)
  have r: "strip_lines 3 ([nl, nl, nl] @ ''C'' @ [nl] @ ''H'' @ [nl] @ ''H'' @ [nl] @ ''H'' @ [nl] @ ''H'' @ [nl])
       = Inr (''C'' @ [nl] @ ''H'' @ [nl] @ ''H'' @ [nl] @ ''H'' @ [nl] @ ''H'' @ [nl])"
    by (simp add: str_index_def numeral_3_eq_3)
  have t: "replicate 3 nl = [nl, nl, nl]"
    by (simp add: numeral_3_eq_3)
  have f: "fingerprint (molobj_to_sdfstr demo_env [6, 1, 1, 1, 1]) =
       Inr ([nl, nl, nl] @ ''C'' @ [nl] @ ''H'' @ [nl] @ ''H'' @ [nl] @ ''H'' @ [nl] @ ''H'' @ [nl],
            ''5eda3f3e84abb98e28c42fcb93171f9a'')"
    unfolding fingerprint_def s r using md5_serialized_methane by (simp add: t Let_def)
  have d: "''6140ee5bf9101b7fb54953daf2673197'' \<noteq> ''5eda3f3e84abb98e28c42fcb93171f9a''"
    by simp
  from p s f d show ?thesis by blast
qed

end
